theory Spec2Isabelle
  imports Main "HOL-Library.AList" "HOL-Library.Char_ord" "HOL-Library.List_Lexorder"
begin

section \<open>Python values used by \<open>omics_ingest/common.py\<close>\<close>

text \<open>
  Strings are lists of characters with code points below 256. Exceptions are values: a
  function that can raise returns \<open>exn + 'a\<close>, with \<open>Inl\<close> for the exception.
\<close>

datatype exn =
    ValueError
  | TypeError
  | RuntimeError string
  | NameError string
  | UnboundLocalError string
  | FileNotFoundError
  | CalledProcessError
  | ParserError

subsection \<open>\<open>str.startswith\<close>, \<open>str.strip\<close>, \<open>str.split\<close>, \<open>str.replace\<close>\<close>

definition startswith :: "string \<Rightarrow> string \<Rightarrow> bool" where
  "startswith s p = (take (length p) s = p)"

text \<open>\<open>str.isspace\<close> on the code points below 256.\<close>

definition isspace :: "char \<Rightarrow> bool" where
  "isspace c = (c \<in> set [CHR 0x09, CHR 0x0A, CHR 0x0B, CHR 0x0C, CHR 0x0D,
                          CHR 0x1C, CHR 0x1D, CHR 0x1E, CHR 0x1F, CHR 0x20,
                          CHR 0x85, CHR 0xA0])"

definition strip :: "string \<Rightarrow> string" where
  "strip s = rev (dropWhile isspace (rev (dropWhile isspace s)))"

text \<open>\<open>s.split(sep)\<close> for a one-character separator: one more part than separators.\<close>

fun split :: "char \<Rightarrow> string \<Rightarrow> string list" where
  "split sep [] = [[]]"
| "split sep (c # cs) =
     (if c = sep then [] # split sep cs
      else (case split sep cs of
              [] \<Rightarrow> [[c]]
            | w # ws \<Rightarrow> (c # w) # ws))"

text \<open>
  \<open>s.replace(old, new)\<close>: every non-overlapping occurrence of \<open>old\<close>, from the left;
  an empty \<open>old\<close> matches before every character and at the end.
\<close>

function replace_from :: "string \<Rightarrow> string \<Rightarrow> string \<Rightarrow> string" where
  "replace_from old new s =
     (if s = [] \<or> old = [] then s
      else if take (length old) s = old
           then new @ replace_from old new (drop (length old) s)
           else hd s # replace_from old new (tl s))"
  by pat_completeness auto
termination
  by (relation "measure (\<lambda>(old, new, s). length s)") (auto simp: neq_Nil_conv)

definition replace :: "string \<Rightarrow> string \<Rightarrow> string \<Rightarrow> string" where
  "replace s old new =
     (if old = [] then new @ concat (map (\<lambda>c. c # new) s)
      else replace_from old new s)"

section \<open>Log records and the manifest comparison\<close>

text \<open>
  One constructor per message of \<open>common.py\<close>, holding the values formatted into it.
\<close>

datatype message =
    SizeNoMatch string string string
  | ChecksumNoMatch string string string
  | ExtraLocal nat "string list"
  | ExtraIrods nat "string list"
  | NotMarkedDone string
  | WillFinalize string int int
  | NotMoving string int int
  | ComputeChecksums string
  | ChecksumsFailed
  | PullIrodsChecksums
  | IrodsManifestFailed
  | AttemptingMove string string
  | CouldNotMove
  | Skipping

type_synonym info = "(string \<times> (string \<times> string)) list"

text \<open>
  A comment line starts with \<open>#\<close> or \<open>%\<close>; the test is made on the line as read,
  before \<open>strip\<close>.
\<close>

definition is_comment :: "string \<Rightarrow> bool" where
  "is_comment line = (startswith line ''#'' \<or> startswith line ''%'')"

text \<open>
  Lines 57 to 62: the loop over the lines of the local manifest. The unpacking
  \<open>size, chksum, path = line.split(",")\<close> raises \<open>ValueError\<close> unless there are
  exactly three parts.
\<close>

fun load_local :: "string list \<Rightarrow> info \<Rightarrow> exn + info" where
  "load_local [] info_local = Inr info_local"
| "load_local (line # rest) info_local =
     (if is_comment line then load_local rest info_local
      else (case split CHR '','' (strip line) of
              [fsize, chksum, path] \<Rightarrow>
                load_local rest (AList.update path (fsize, chksum) info_local)
            | _ \<Rightarrow> Inl ValueError))"

text \<open>
  Lines 65 to 71: the loop over the lines of the iRODS manifest. As in the source, line 71
  stores the entry in \<open>info_local\<close>; \<open>info_irods\<close> is never written.
\<close>

fun load_irods :: "string \<Rightarrow> string list \<Rightarrow> info \<Rightarrow> exn + info" where
  "load_irods dest_coll [] info_local = Inr info_local"
| "load_irods dest_coll (line # rest) info_local =
     (if is_comment line then load_irods dest_coll rest info_local
      else (case split CHR '','' (strip line) of
              [fsize, chksum, path] \<Rightarrow>
                load_irods dest_coll rest
                  (AList.update (replace path dest_coll ''.'') (fsize, chksum) info_local)
            | _ \<Rightarrow> Inl ValueError))"

text \<open>
  Lines 75 to 85: the loop over the paths on both sides. A set has no fixed iteration
  order in Python; the model takes the order of \<open>info_local\<close>.
\<close>

fun compare_common :: "info \<Rightarrow> info \<Rightarrow> string list \<Rightarrow> message list" where
  "compare_common info_local info_irods [] = []"
| "compare_common info_local info_irods (path # rest) =
     (case (map_of info_local path, map_of info_irods path) of
        (Some (size_local, chksum_local), Some (size_irods, chksum_irods)) \<Rightarrow>
          (if size_local \<noteq> size_irods
           then [SizeNoMatch size_local size_irods path] else []) @
          (if chksum_local \<noteq> chksum_irods
           then [ChecksumNoMatch chksum_local chksum_irods path] else []) @
          compare_common info_local info_irods rest
      | _ \<Rightarrow> compare_common info_local info_irods rest)"

text \<open>
  \<open>_compare_manifests\<close> (lines 49 to 103). \<open>files\<close> is the local file system as
  \<open>open(path, "rt")\<close> sees it: the lines of the file at a path, \<open>None\<close> where there
  is no file. The result is the list of \<open>logger.error\<close> records and either the
  exception raised or the normal return.
\<close>

definition compare_manifests ::
  "(string \<Rightarrow> string list option) \<Rightarrow> string \<Rightarrow> string \<Rightarrow> string
     \<Rightarrow> message list \<times> (exn + unit)" where
  "compare_manifests files path_local path_irods dest_coll =
     (case files path_local of
        None \<Rightarrow> ([], Inl FileNotFoundError)
      | Some lines_local \<Rightarrow>
     (case load_local lines_local [] of
        Inl e \<Rightarrow> ([], Inl e)
      | Inr info_local0 \<Rightarrow>
     (let info_irods = [] in
     (case files path_irods of
        None \<Rightarrow> ([], Inl FileNotFoundError)
      | Some lines_irods \<Rightarrow>
     (case load_irods dest_coll lines_irods info_local0 of
        Inl e \<Rightarrow> ([], Inl e)
      | Inr info_local \<Rightarrow>
     (let common = filter (\<lambda>p. p \<in> set (map fst info_irods)) (map fst info_local);
          mismatches = compare_common info_local info_irods common;
          extra_local = filter (\<lambda>p. p \<notin> set (map fst info_irods)) (map fst info_local);
          extra_irods = filter (\<lambda>p. p \<notin> set (map fst info_local)) (map fst info_irods);
          log = mismatches
                @ (if extra_local \<noteq> []
                   then [ExtraLocal (length extra_local) (take 10 (sort extra_local))]
                   else [])
                @ (if extra_irods \<noteq> []
                   then [ExtraIrods (length extra_irods) (take 10 (sort extra_irods))]
                   else []);
          ok = (mismatches = [] \<and> extra_local = [] \<and> extra_irods = [])
      in (log, if ok then Inr () else Inl (RuntimeError ''Difference in manifests!''))))))))"

section \<open>\<open>pathlib\<close> paths and \<open>to_ingested_path\<close>\<close>

text \<open>
  A \<open>PurePosixPath\<close>: its root (\<open>/\<close>, \<open>//\<close> or empty) and its components. The
  constructor drops empty components and \<open>.\<close>; it keeps \<open>..\<close>.
\<close>

record pure_path =
  root :: string
  parts :: "string list"

definition posix_root :: "string \<Rightarrow> string" where
  "posix_root s =
     (if startswith s ''///'' then ''/''
      else if startswith s ''//'' then ''//''
      else if startswith s ''/'' then ''/''
      else [])"

definition Path :: "string \<Rightarrow> pure_path" where
  "Path s = \<lparr> root = posix_root s,
              parts = filter (\<lambda>p. p \<noteq> [] \<and> p \<noteq> ''.'') (split CHR ''/'' s) \<rparr>"

definition parent :: "pure_path \<Rightarrow> pure_path" where
  "parent p = (if parts p = [] then p else p\<lparr> parts := butlast (parts p) \<rparr>)"

definition name :: "pure_path \<Rightarrow> string" where
  "name p = (if parts p = [] then [] else last (parts p))"

text \<open>\<open>p / s\<close> for a string \<open>s\<close>: an absolute \<open>s\<close> replaces \<open>p\<close>.\<close>

definition joinpath :: "pure_path \<Rightarrow> string \<Rightarrow> pure_path" where
  "joinpath p s =
     (let q = Path s
      in if root q \<noteq> [] then q else p\<lparr> parts := parts p @ parts q \<rparr>)"

fun join_parts :: "string list \<Rightarrow> string" where
  "join_parts [] = []"
| "join_parts [p] = p"
| "join_parts (p # q # ps) = p @ ''/'' @ join_parts (q # ps)"

definition path_str :: "pure_path \<Rightarrow> string" where
  "path_str p =
     (if root p = [] \<and> parts p = [] then ''.'' else root p @ join_parts (parts p))"

text \<open>\<open>to_ingested_path\<close> of \<open>common.py\<close> (lines 42 to 46), after \<open>pathlib.Path(orig_path)\<close>.\<close>

definition to_ingested_path :: "pure_path \<Rightarrow> pure_path" where
  "to_ingested_path orig_path =
     (let ingested_base =
            joinpath (parent (parent orig_path)) (name (parent orig_path) @ ''-INGESTED'')
      in joinpath ingested_base (name orig_path))"

text \<open>\<open>to_ingested_path\<close> of \<open>genomics/illumina.py\<close> (lines 38 to 42), on a string.\<close>

definition illumina_to_ingested_path :: "string \<Rightarrow> pure_path" where
  "illumina_to_ingested_path orig =
     (let orig_path = Path orig;
          ingested_base =
            joinpath (parent (parent orig_path)) (name (parent orig_path) @ ''-INGESTED'')
      in joinpath ingested_base (name orig_path))"

text \<open>\<open>os.path.join(a, b)\<close> on two strings.\<close>

definition os_path_join :: "string \<Rightarrow> string \<Rightarrow> string" where
  "os_path_join a b =
     (if startswith b ''/'' then b
      else if a = [] \<or> last a = CHR ''/'' then a @ b
      else a @ ''/'' @ b)"

section \<open>String formatting\<close>

text \<open>
  \<open>fmt % args\<close> with string arguments, for the conversions the module's commands use:
  \<open>%s\<close> and \<open>%%\<close>. After a \<open>%\<close> that is not followed by \<open>%\<close> the next argument is
  taken first (\<open>TypeError\<close> when none is left) and the conversion character is looked at
  second (\<open>ValueError\<close> when it is not \<open>s\<close>; no other conversion is modelled). A
  \<open>%\<close> at the very end is a \<open>ValueError\<close>; arguments left over are a \<open>TypeError\<close>.
\<close>

fun py_format :: "string \<Rightarrow> string list \<Rightarrow> exn + string" where
  "py_format [] args = (if args = [] then Inr [] else Inl TypeError)"
| "py_format [c] args =
     (if c = CHR ''%'' then Inl ValueError
      else if args = [] then Inr [c] else Inl TypeError)"
| "py_format (c # d # rest) args =
     (if c \<noteq> CHR ''%''
      then (case py_format (d # rest) args of Inl e \<Rightarrow> Inl e | Inr r \<Rightarrow> Inr (c # r))
      else if d = CHR ''%''
      then (case py_format rest args of Inl e \<Rightarrow> Inl e | Inr r \<Rightarrow> Inr (CHR ''%'' # r))
      else (case args of
              [] \<Rightarrow> Inl TypeError
            | a # as \<Rightarrow>
                if d = CHR ''s''
                then (case py_format rest as of Inl e \<Rightarrow> Inl e | Inr r \<Rightarrow> Inr (a @ r))
                else Inl ValueError))"

text \<open>\<open>str(n)\<close> for a natural number.\<close>

fun str_nat :: "nat \<Rightarrow> string" where
  "str_nat n =
     (if n < 10 then [char_of (48 + n)]
      else str_nat (n div 10) @ [char_of (48 + n mod 10)])"

section \<open>Constants of the module\<close>

definition KEY_LAST_UPDATE :: string where
  "KEY_LAST_UPDATE = ''omics::ingest::last_update''"

definition KEY_STATUS :: string where
  "KEY_STATUS = ''omics::ingest::status''"

definition HASHDEEP_THREADS :: nat where
  "HASHDEEP_THREADS = 8"

definition HASHDEEP_ALGO :: string where
  "HASHDEEP_ALGO = ''md5''"

definition MANIFEST_LOCAL :: string where
  "MANIFEST_LOCAL = ''_MANIFEST_LOCAL.txt''"

definition MANIFEST_IRODS :: string where
  "MANIFEST_IRODS = ''_MANIFEST_IRODS.txt''"

section \<open>Effects of \<open>_post_job_run_folder_done\<close>\<close>

text \<open>
  The function works through calls to the logger, the file system and child processes;
  \<open>post_job\<close> cleans up the iRODS session at its end. A run is the list of the calls
  made, in order, each with how it ended, and the way the function itself ended.
\<close>

datatype level = INFO | WARN | ERROR

datatype action =
    OpenWrite string
  | Popen "string list" string
  | Run "string list"
  | Remove string
  | Cleanup

datatype event =
    Log level message
  | Did action
  | Failed action exn

text \<open>How a block of the function body ends: it falls through, returns, or raises.\<close>

datatype flow = Continue | Returned | Raised exn

text \<open>
  A destination collection, as far as the function reads it: its name, the text it is
  formatted to in log records and queries, and the values of its \<open>last_update\<close>
  records.
\<close>

record collection =
  coll_name :: string
  coll_path :: string
  last_update_values :: "string list"

text \<open>
  What the function finds outside itself during one run. Times are microseconds on the
  clock of \<open>datetime.now()\<close>, durations are differences of times.
  \<^item> \<open>chck_path\<close>: the value of the global name \<open>chck_path\<close> read at line 139. The
    module assigns no such name, so \<open>None\<close> is the module as it is written.
  \<^item> \<open>now_first\<close>, \<open>now_second\<close>: the two readings of the clock at line 126; the
    second is taken only when there is no \<open>last_update\<close>.
  \<^item> \<open>parse\<close>: \<open>dateutil.parser.parse\<close>; \<open>None\<close> where it raises.
  \<^item> \<open>hashdeep_ok\<close>, \<open>iquest_ok\<close>, \<open>iquest_sub_ok\<close>: whether the child process
    ends with status zero; \<open>find_returncode\<close>: the status \<open>p_find.wait()\<close> returns.
  Every other call is taken to return.
\<close>

record env =
  chck_path :: "string option"
  now_first :: int
  now_second :: int
  parse :: "string \<Rightarrow> int option"
  hashdeep_ok :: bool
  find_returncode :: int
  iquest_ok :: bool
  iquest_sub_ok :: bool

subsection \<open>Lines 120 to 126: the age of the last update\<close>

fun scan_last_update ::
  "(string \<Rightarrow> int option) \<Rightarrow> string list \<Rightarrow> int option \<Rightarrow> exn + int option" where
  "scan_last_update prs [] last_update = Inr last_update"
| "scan_last_update prs (v # vs) last_update =
     (case prs v of
        None \<Rightarrow> Inl ParserError
      | Some val \<Rightarrow>
          scan_last_update prs vs
            (case last_update of
               None \<Rightarrow> Some val
             | Some l \<Rightarrow> if val > l then Some val else Some l))"

definition last_update_age :: "env \<Rightarrow> int option \<Rightarrow> int" where
  "last_update_age w last_update =
     now_first w - (case last_update of Some l \<Rightarrow> l | None \<Rightarrow> now_second w)"

subsection \<open>Lines 137 to 162: the local manifest\<close>

text \<open>The command lines, built as the source builds them.\<close>

definition find_argv :: "exn + string list" where
  "find_argv =
     (case py_format ''find . -type f -and -not -path ./%s'' [MANIFEST_LOCAL] of
        Inl e \<Rightarrow> Inl e
      | Inr s \<Rightarrow> Inr (split CHR '' '' s))"

definition hashdeep_argv :: "exn + string list" where
  "hashdeep_argv =
     (case py_format ''hashdeep -c %s -f /dev/stdin -j %s''
             [HASHDEEP_ALGO, str_nat HASHDEEP_THREADS] of
        Inl e \<Rightarrow> Inl e
      | Inr s \<Rightarrow> Inr (split CHR '' '' s))"

text \<open>
  What \<open>find . -type f -and -not -path P\<close> prints in a directory: \<open>tree\<close> lists the
  entries below it under the names \<open>find\<close> gives them (\<open>./a\<close>, \<open>./sub/b\<close>) with their
  kinds; \<open>P\<close> is compared as a whole path (the patterns here hold no wildcard). Other
  command lines are not interpreted.
\<close>

datatype kind = Regular | Directory | Special

definition find_output :: "string list \<Rightarrow> (string \<times> kind) list \<Rightarrow> string list option" where
  "find_output argv tree =
     (if length argv = 8 \<and>
         take 7 argv = [''find'', ''.'', ''-type'', ''f'', ''-and'', ''-not'', ''-path'']
      then Some (filter (\<lambda>p. p \<noteq> last argv)
                   (map fst (filter (\<lambda>e. snd e = Regular) tree)))
      else None)"

text \<open>
  The block. Line 139 reads \<open>chck_path\<close> before anything is opened. \<open>p_find\<close> is
  started without a pipe, so \<open>p_find.stdout\<close> is \<open>None\<close> and \<open>hashdeep\<close> inherits
  the standard input of the process. A failing \<open>hashdeep\<close> is caught at line 159. A
  nonzero status of \<open>find\<close> reaches line 156, where \<open>CalledProcessError\<close> is called
  with one argument: that is a \<open>TypeError\<close>, which line 159 does not catch.
\<close>

definition build_local_manifest :: "env \<Rightarrow> pure_path \<Rightarrow> event list \<times> flow" where
  "build_local_manifest w src_folder =
     (let local_path = os_path_join (path_str src_folder) MANIFEST_LOCAL
      in case chck_path w of
           None \<Rightarrow> ([], Raised (NameError ''chck_path''))
         | Some cp \<Rightarrow>
        (case find_argv of
           Inl e \<Rightarrow> ([Log INFO (ComputeChecksums cp), Did (OpenWrite local_path)], Raised e)
         | Inr fargv \<Rightarrow>
        (case hashdeep_argv of
           Inl e \<Rightarrow>
             ([Log INFO (ComputeChecksums cp), Did (OpenWrite local_path),
               Did (Popen fargv (path_str src_folder))], Raised e)
         | Inr hargv \<Rightarrow>
             if \<not> hashdeep_ok w
             then ([Log INFO (ComputeChecksums cp), Did (OpenWrite local_path),
                    Did (Popen fargv (path_str src_folder)),
                    Failed (Run hargv) CalledProcessError,
                    Log WARN ChecksumsFailed, Did (Remove local_path)], Returned)
             else if find_returncode w \<noteq> 0
             then ([Log INFO (ComputeChecksums cp), Did (OpenWrite local_path),
                    Did (Popen fargv (path_str src_folder)), Did (Run hargv)],
                   Raised TypeError)
             else ([Log INFO (ComputeChecksums cp), Did (OpenWrite local_path),
                    Did (Popen fargv (path_str src_folder)), Did (Run hargv)],
                   Continue))))"

subsection \<open>Lines 163 to 193: the manifest of the iRODS side\<close>

definition iquest_cmd :: "string \<Rightarrow> exn + string list" where
  "iquest_cmd dst =
     (case py_format
             (''SELECT DATA_SIZE, DATA_CHECKSUM, COLL_NAME, DATA_NAME ''
              @ ''WHERE COLL_NAME = '' @ [CHR 0x27] @ ''%s'' @ [CHR 0x27]
              @ '' AND DATA_NAME != '' @ [CHR 0x27] @ ''%s'' @ [CHR 0x27]
              @ '' AND DATA_NAME != '' @ [CHR 0x27] @ ''%s'' @ [CHR 0x27])
             [dst, MANIFEST_LOCAL, MANIFEST_IRODS] of
        Inl e \<Rightarrow> Inl e
      | Inr q \<Rightarrow> Inr [''iquest'', ''%d,%s,%s/%s'', q])"

definition iquest_cmd_sub :: "string \<Rightarrow> exn + string list" where
  "iquest_cmd_sub dst =
     (case py_format
             (''SELECT DATA_SIZE, DATA_CHECKSUM, COLL_NAME, DATA_NAME ''
              @ ''WHERE COLL_NAME like '' @ [CHR 0x27] @ ''%s/%'' @ [CHR 0x27])
             [dst] of
        Inl e \<Rightarrow> Inl e
      | Inr q \<Rightarrow> Inr [''iquest'', ''%d,%s,%s/%s'', q])"

text \<open>
  The block. Both commands run inside one \<open>try\<close> that catches \<open>CalledProcessError\<close>
  only; the second command line is formatted after the first command has run.
\<close>

definition build_irods_manifest ::
  "env \<Rightarrow> pure_path \<Rightarrow> collection \<Rightarrow> event list \<times> flow" where
  "build_irods_manifest w src_folder dst_collection =
     (let irods_path = os_path_join (path_str src_folder) MANIFEST_IRODS
      in case iquest_cmd (coll_path dst_collection) of
           Inl e \<Rightarrow> ([Log INFO PullIrodsChecksums, Did (OpenWrite irods_path)], Raised e)
         | Inr cmd \<Rightarrow>
             if \<not> iquest_ok w
             then ([Log INFO PullIrodsChecksums, Did (OpenWrite irods_path),
                    Failed (Run cmd) CalledProcessError,
                    Log WARN IrodsManifestFailed, Did (Remove irods_path)], Returned)
             else (case iquest_cmd_sub (coll_path dst_collection) of
                     Inl e \<Rightarrow>
                       ([Log INFO PullIrodsChecksums, Did (OpenWrite irods_path),
                         Did (Run cmd)], Raised e)
                   | Inr cmd_sub \<Rightarrow>
                       if \<not> iquest_sub_ok w
                       then ([Log INFO PullIrodsChecksums, Did (OpenWrite irods_path),
                              Did (Run cmd), Failed (Run cmd_sub) CalledProcessError,
                              Log WARN IrodsManifestFailed, Did (Remove irods_path)],
                             Returned)
                       else ([Log INFO PullIrodsChecksums, Did (OpenWrite irods_path),
                              Did (Run cmd), Did (Run cmd_sub)], Continue)))"

subsection \<open>\<open>_post_job_run_folder_done\<close> (lines 106 to 218)\<close>

text \<open>
  \<open>is_folder_done\<close> and \<open>delay_until_at_rest\<close> are the arguments of the same names;
  \<open>src_folder\<close> is the path that line 119 makes of the argument.

  Line 195 calls \<open>_compare_manifests(local_manifest_dest, irods_manifest_dest, ...)\<close>.
  Both names are local to the function, because it assigns them (at lines 197 and 201),
  and no path leads from those assignments back to line 195. Whenever line 195 is
  reached the first name is therefore unassigned and reading it raises
  \<open>UnboundLocalError\<close>, before \<open>_compare_manifests\<close> is entered. Lines 196 to 213
  (the two uploads, the move and the status record) are run in no execution; the model
  ends at line 195.
\<close>

definition post_job_run_folder_done ::
  "env \<Rightarrow> pure_path \<Rightarrow> collection \<Rightarrow> (string \<Rightarrow> bool) \<Rightarrow> int
     \<Rightarrow> event list \<times> (exn + unit)" where
  "post_job_run_folder_done w src_folder dst_collection is_folder_done delay_until_at_rest =
     (case scan_last_update (parse w) (last_update_values dst_collection) None of
        Inl e \<Rightarrow> ([], Inl e)
      | Inr last_update \<Rightarrow>
     (let age = last_update_age w last_update
      in if \<not> is_folder_done (path_str src_folder)
         then ([Log INFO (NotMarkedDone (path_str src_folder))], Inr ())
         else if age > delay_until_at_rest
         then (case build_local_manifest w src_folder of
                 (t1, Raised e) \<Rightarrow>
                   (Log INFO (WillFinalize (coll_path dst_collection) age
                                delay_until_at_rest) # t1, Inl e)
               | (t1, Returned) \<Rightarrow>
                   (Log INFO (WillFinalize (coll_path dst_collection) age
                                delay_until_at_rest) # t1, Inr ())
               | (t1, Continue) \<Rightarrow>
              (case build_irods_manifest w src_folder dst_collection of
                 (t2, Raised e) \<Rightarrow>
                   (Log INFO (WillFinalize (coll_path dst_collection) age
                                delay_until_at_rest) # t1 @ t2, Inl e)
               | (t2, Returned) \<Rightarrow>
                   (Log INFO (WillFinalize (coll_path dst_collection) age
                                delay_until_at_rest) # t1 @ t2, Inr ())
               | (t2, Continue) \<Rightarrow>
                   (Log INFO (WillFinalize (coll_path dst_collection) age
                                delay_until_at_rest) # t1 @ t2,
                    Inl (UnboundLocalError ''local_manifest_dest''))))
         else ([Log INFO (NotMoving (coll_path dst_collection) age
                            delay_until_at_rest)], Inr ())))"

subsection \<open>\<open>post_job\<close> (lines 238 to 261)\<close>

text \<open>
  The loop of lines 250 to 261 over the sorted names of the entries of the source root.
  \<open>world\<close> gives, for each folder name, what the run for that folder finds. Nothing in
  the loop catches an exception.
\<close>

fun post_job_loop ::
  "(string \<Rightarrow> env) \<Rightarrow> pure_path \<Rightarrow> (string \<Rightarrow> collection option)
     \<Rightarrow> (string \<Rightarrow> bool) \<Rightarrow> int \<Rightarrow> string list \<Rightarrow> event list \<times> (exn + unit)" where
  "post_job_loop world src_root dst_collections is_folder_done delay [] = ([], Inr ())"
| "post_job_loop world src_root dst_collections is_folder_done delay (src_folder # rest) =
     (case dst_collections src_folder of
        None \<Rightarrow>
          (Log INFO Skipping
             # fst (post_job_loop world src_root dst_collections is_folder_done delay rest),
           snd (post_job_loop world src_root dst_collections is_folder_done delay rest))
      | Some coll \<Rightarrow>
          (case post_job_run_folder_done (world src_folder)
                  (joinpath src_root src_folder) coll is_folder_done delay of
             (t, Inl e) \<Rightarrow> (t, Inl e)
           | (t, Inr u) \<Rightarrow>
               (t @ fst (post_job_loop world src_root dst_collections is_folder_done delay
                           rest),
                snd (post_job_loop world src_root dst_collections is_folder_done delay
                       rest))))"

text \<open>
  \<open>post_job\<close>: \<open>root\<close> is \<open>meta["root"]\<close>, \<open>subcollections\<close> the subcollections of the
  target collection, \<open>entries\<close> the names of the entries of the source root. The session
  is cleaned up on every way out (\<open>cleanuping\<close>, lines 34 to 39).
\<close>

definition post_job ::
  "(string \<Rightarrow> env) \<Rightarrow> string \<Rightarrow> collection list \<Rightarrow> string list
     \<Rightarrow> (string \<Rightarrow> bool) \<Rightarrow> int \<Rightarrow> event list \<times> (exn + unit)" where
  "post_job world root_dir subcollections entries is_folder_done delay_until_at_rest =
     (let src_root = Path root_dir;
          dst_collections = map_of (rev (map (\<lambda>c. (coll_name c, c)) subcollections));
          run = post_job_loop world src_root dst_collections is_folder_done
                  delay_until_at_rest (sort entries)
      in (fst run @ [Did Cleanup], snd run))"

section \<open>Predicates on manifest lines\<close>

text \<open>
  A blank line holds white space only (the line end included); a malformed line is blank,
  or is no comment and holds a number of commas other than two.
\<close>

definition blank :: "string \<Rightarrow> bool" where
  "blank line = list_all isspace line"

definition malformed :: "string \<Rightarrow> bool" where
  "malformed line =
     (blank line \<or> (\<not> is_comment line \<and> count_list line CHR '','' \<noteq> 2))"

section \<open>Concrete inputs\<close>

definition newline :: string where
  "newline = [CHR 0x0A]"

text \<open>A file system with a local manifest at \<open>local.txt\<close> and an iRODS manifest at \<open>irods.txt\<close>.\<close>

definition two_files :: "string list \<Rightarrow> string list \<Rightarrow> string \<Rightarrow> string list option" where
  "two_files lines_local lines_irods p =
     (if p = ''local.txt'' then Some lines_local
      else if p = ''irods.txt'' then Some lines_irods
      else None)"

text \<open>
  The module as written (no global \<open>chck_path\<close>), every outside call succeeding, the
  clock at twenty minutes after the one \<open>last_update\<close> value, which is time zero.
\<close>

definition env_module :: env where
  "env_module =
     \<lparr> chck_path = None, now_first = 1200000000, now_second = 1200000000,
       parse = (\<lambda>s. if s = ''1970-01-01T00:00:00'' then Some 0 else None),
       hashdeep_ok = True, find_returncode = 0, iquest_ok = True, iquest_sub_ok = True \<rparr>"

definition coll_run :: "string \<Rightarrow> collection" where
  "coll_run n =
     \<lparr> coll_name = n, coll_path = ''/zone/ingest/'' @ n,
       last_update_values = [''1970-01-01T00:00:00''] \<rparr>"

definition fifteen_minutes :: int where
  "fifteen_minutes = 900000000"

section \<open>The manifest parser\<close>

lemma split_nonempty: "split sep s \<noteq> []"
  by (induction s) (auto split: list.splits)

lemma length_split: "length (split sep s) = Suc (count_list s sep)"
  by (induction s) (auto split: list.splits simp: split_nonempty)

lemma count_dropWhile_isspace:
  "\<not> isspace c \<Longrightarrow> count_list (dropWhile isspace s) c = count_list s c"
  by (induction s) auto

lemma count_list_rev: "count_list (rev s) c = count_list s c"
  by (induction s) auto

lemma count_strip: "\<not> isspace c \<Longrightarrow> count_list (strip s) c = count_list s c"
  by (simp add: strip_def count_dropWhile_isspace count_list_rev)

lemma comma_not_space: "\<not> isspace CHR '',''"
  by (simp add: isspace_def)

lemma parts_of_line:
  "length (split CHR '','' (strip line)) = Suc (count_list line CHR '','')"
  by (simp add: length_split count_strip comma_not_space)

lemma unpack_three:
  "length xs \<noteq> 3 \<Longrightarrow> (case xs of [a, b, c] \<Rightarrow> f a b c | _ \<Rightarrow> g) = g"
  by (auto split: list.splits)

lemma load_local_step:
  "\<not> is_comment line \<Longrightarrow> count_list line CHR '','' \<noteq> 2 \<Longrightarrow>
   load_local (line # rest) info = Inl ValueError"
  by (simp add: unpack_three parts_of_line)

lemma load_local_cases:
  "load_local (line # rest) info = Inl ValueError \<or>
   (\<exists>info'. load_local (line # rest) info = load_local rest info')"
  by (auto split: list.splits)

lemma load_local_bad_line:
  "line \<in> set ls \<Longrightarrow> \<not> is_comment line \<Longrightarrow> count_list line CHR '','' \<noteq> 2 \<Longrightarrow>
   load_local ls info = Inl ValueError"
proof (induction ls arbitrary: info)
  case Nil
  then show ?case by simp
next
  case (Cons l ls)
  show ?case
  proof (cases "l = line")
    case True
    with Cons.prems show ?thesis using load_local_step by blast
  next
    case False
    with Cons.prems have "line \<in> set ls" by simp
    then have ih: "\<And>i. load_local ls i = Inl ValueError"
      using Cons.IH Cons.prems by blast
    from load_local_cases [of l ls info] show ?thesis
      using ih by auto
  qed
qed

lemma load_irods_step:
  "\<not> is_comment line \<Longrightarrow> count_list line CHR '','' \<noteq> 2 \<Longrightarrow>
   load_irods dest (line # rest) info = Inl ValueError"
  by (simp add: unpack_three parts_of_line)

lemma load_irods_cases:
  "load_irods dest (line # rest) info = Inl ValueError \<or>
   (\<exists>info'. load_irods dest (line # rest) info = load_irods dest rest info')"
  by (auto split: list.splits)

lemma load_irods_bad_line:
  "line \<in> set ls \<Longrightarrow> \<not> is_comment line \<Longrightarrow> count_list line CHR '','' \<noteq> 2 \<Longrightarrow>
   load_irods dest ls info = Inl ValueError"
proof (induction ls arbitrary: info)
  case Nil
  then show ?case by simp
next
  case (Cons l ls)
  show ?case
  proof (cases "l = line")
    case True
    with Cons.prems show ?thesis using load_irods_step by blast
  next
    case False
    with Cons.prems have "line \<in> set ls" by simp
    then have ih: "\<And>i. load_irods dest ls i = Inl ValueError"
      using Cons.IH Cons.prems by blast
    from load_irods_cases [of dest l ls info] show ?thesis
      using ih by auto
  qed
qed

lemma load_local_only_ValueError: "load_local ls info = Inl e \<Longrightarrow> e = ValueError"
  by (induction ls arbitrary: info) (auto split: if_splits list.splits)

lemma blank_no_comma: "blank line \<Longrightarrow> count_list line CHR '','' = 0"
  unfolding blank_def
  by (induction line) (auto simp: comma_not_space)

lemma blank_not_comment: "blank line \<Longrightarrow> \<not> is_comment line"
  by (cases line) (auto simp: blank_def is_comment_def startswith_def isspace_def)

lemma malformed_unpacks_wrongly:
  "malformed line \<Longrightarrow> \<not> is_comment line \<and> count_list line CHR '','' \<noteq> 2"
  using blank_no_comma blank_not_comment by (auto simp: malformed_def)

lemma comment_line_skipped:
  "is_comment line \<Longrightarrow>
   load_local (line # rest) info = load_local rest info \<and>
   load_irods dest (line # rest) info = load_irods dest rest info"
  by simp

lemma is_comment_first_char:
  "is_comment line \<longleftrightarrow> line \<noteq> [] \<and> (hd line = CHR ''#'' \<or> hd line = CHR ''%'')"
  by (cases line) (auto simp: is_comment_def startswith_def)

text \<open>
  C10. Parsing a manifest is not total: when either manifest holds a blank line (empty or
  white space only), or a line that is no comment and has fewer or more than two
  commas, \<open>_compare_manifests\<close> raises \<open>ValueError\<close> before it logs anything; the line
  is not skipped. The only lines skipped are those whose first character is \<open>#\<close> or
  \<open>%\<close> (lemmas \<open>comment_line_skipped\<close>, \<open>is_comment_first_char\<close>).
\<close>

theorem malformed_line_raises:
  assumes "fs path_local = Some lines_local"
    and "line \<in> set lines_local \<or>
         (fs path_irods = Some lines_irods \<and> line \<in> set lines_irods)"
    and "malformed line"
  shows "compare_manifests fs path_local path_irods dest_coll = ([], Inl ValueError)"
proof -
  have bad: "\<not> is_comment line" "count_list line CHR '','' \<noteq> 2"
    using malformed_unpacks_wrongly [OF assms(3)] by simp_all
  show ?thesis
  proof (cases "load_local lines_local []")
    case (Inl e)
    then have "e = ValueError" by (rule load_local_only_ValueError)
    with Inl assms(1) show ?thesis by (simp add: compare_manifests_def)
  next
    case (Inr info0)
    have "line \<notin> set lines_local"
      using load_local_bad_line [OF _ bad, of lines_local "[]"] Inr by auto
    with assms(2) have ir: "fs path_irods = Some lines_irods" "line \<in> set lines_irods"
      by simp_all
    have "load_irods dest_coll lines_irods info0 = Inl ValueError"
      using load_irods_bad_line [OF ir(2) bad] .
    with Inr assms(1) ir(1) show ?thesis by (simp add: compare_manifests_def)
  qed
qed

text \<open>The witness: a local manifest whose only line is the line end.\<close>

theorem malformed_line_raises_witness:
  "two_files [newline] [] ''local.txt'' = Some [newline]
   \<and> newline \<in> set [newline]
   \<and> malformed newline
   \<and> compare_manifests (two_files [newline] []) ''local.txt'' ''irods.txt'' ''/coll''
       = ([], Inl ValueError)"
proof -
  have h1: "two_files [newline] [] ''local.txt'' = Some [newline]"
    by (simp add: two_files_def)
  have h2: "newline \<in> set [newline] \<or>
            (two_files [newline] [] ''irods.txt'' = Some [] \<and> newline \<in> set [])"
    by simp
  have h3: "malformed newline"
    by (simp add: malformed_def blank_def newline_def isspace_def)
  from malformed_line_raises [OF h1 h2 h3] h1 h3 show ?thesis by simp
qed

section \<open>The manifest comparison\<close>

lemma compare_manifests_log:
  "fst (compare_manifests fs path_local path_irods dest_coll) = [] \<or>
   (\<exists>n ps. fst (compare_manifests fs path_local path_irods dest_coll) = [ExtraLocal n ps])"
  by (auto simp: compare_manifests_def Let_def split: option.splits sum.splits)

text \<open>
  C1. The claim: the two manifests are parsed into two separate maps, and the
  comparison returns exactly when the key sets are equal and every shared key has equal
  size and checksum. Line 71 of the source stores the iRODS entries in \<open>info_local\<close>, so
  \<open>info_irods\<close> stays empty and every entry of either manifest is reported as extra on
  the local side. Evaluated here: a local manifest \<open>10,x,./a\<close> against an iRODS manifest
  \<open>10,x,/coll/a\<close> for the collection \<open>/coll\<close> (equal keys, equal values) raises
  \<open>RuntimeError\<close>; and the manifests \<open>{a, b}\<close> against \<open>{a, c}\<close> report three extra
  local items \<open>a, b, c\<close> and no extra iRODS item.
\<close>

theorem compare_manifests_equal_manifests_raise:
  "compare_manifests (two_files [''10,x,./a'' @ newline] [''10,x,/coll/a'' @ newline])
     ''local.txt'' ''irods.txt'' ''/coll''
     = ([ExtraLocal 1 [''./a'']], Inl (RuntimeError ''Difference in manifests!''))
   \<and> compare_manifests
       (two_files [''10,x,a'' @ newline, ''5,y,b'' @ newline]
                  [''10,x,a'' @ newline, ''5,y,c'' @ newline])
       ''local.txt'' ''irods.txt'' ''/coll''
     = ([ExtraLocal 3 [''a'', ''b'', ''c'']], Inl (RuntimeError ''Difference in manifests!''))"
  by code_simp

text \<open>
  C2. The claim: a path on both sides whose sizes or checksums differ is recorded as a
  mismatch, and local \<open>{a: (10, x)}\<close> against iRODS \<open>{a: (11, x)}\<close> fails citing a size
  mismatch for \<open>a\<close>. The run does raise, but the only record is one extra local item:
  the iRODS entry has overwritten the local one in \<open>info_local\<close> (line 71), and the
  loop of lines 75 to 85 runs over an empty intersection. For no input does the log hold
  a size or checksum record.
\<close>

theorem compare_manifests_size_difference_not_cited:
  "compare_manifests (two_files [''10,x,a'' @ newline] [''11,x,a'' @ newline])
     ''local.txt'' ''irods.txt'' ''/coll''
     = ([ExtraLocal 1 [''a'']], Inl (RuntimeError ''Difference in manifests!''))
   \<and> SizeNoMatch size_local size_irods path
       \<notin> set (fst (compare_manifests fs path_local path_irods dest_coll))
   \<and> ChecksumNoMatch chksum_local chksum_irods path
       \<notin> set (fst (compare_manifests fs path_local path_irods dest_coll))"
proof -
  have "compare_manifests (two_files [''10,x,a'' @ newline] [''11,x,a'' @ newline])
          ''local.txt'' ''irods.txt'' ''/coll''
        = ([ExtraLocal 1 [''a'']], Inl (RuntimeError ''Difference in manifests!''))"
    by code_simp
  then show ?thesis
    using compare_manifests_log [of fs path_local path_irods dest_coll] by auto
qed

section \<open>The ingested path\<close>

lemma split_no_sep: "sep \<notin> set s \<Longrightarrow> split sep s = [s]"
  by (induction s) auto

lemma split_parts_no_sep: "p \<in> set (split sep s) \<Longrightarrow> sep \<notin> set p"
  by (induction s arbitrary: p) (auto split: if_splits list.splits)

lemma Path_part_valid:
  "p \<in> set (parts (Path s)) \<Longrightarrow> p \<noteq> [] \<and> p \<noteq> ''.'' \<and> CHR ''/'' \<notin> set p"
  by (auto simp: Path_def dest: split_parts_no_sep)

lemma posix_root_component: "CHR ''/'' \<notin> set c \<Longrightarrow> posix_root c = []"
  by (cases c) (auto simp: posix_root_def startswith_def)

lemma Path_component:
  "c \<noteq> [] \<Longrightarrow> c \<noteq> ''.'' \<Longrightarrow> CHR ''/'' \<notin> set c \<Longrightarrow>
   Path c = \<lparr> root = [], parts = [c] \<rparr>"
  by (simp add: Path_def posix_root_component split_no_sep)

lemma joinpath_component:
  "c \<noteq> [] \<Longrightarrow> c \<noteq> ''.'' \<Longrightarrow> CHR ''/'' \<notin> set c \<Longrightarrow>
   joinpath p c = p\<lparr> parts := parts p @ [c] \<rparr>"
  by (simp add: joinpath_def Path_component)

lemma to_ingested_path_components:
  assumes "parts p = ps @ [d, n]"
    and "d \<noteq> []" "CHR ''/'' \<notin> set d"
    and "n \<noteq> []" "n \<noteq> ''.''" "CHR ''/'' \<notin> set n"
  shows "to_ingested_path p = p\<lparr> parts := ps @ [d @ ''-INGESTED'', n] \<rparr>"
proof -
  have pp: "parts (parent p) = ps @ [d]"
    using assms(1) by (simp add: parent_def butlast_append)
  have ppp: "parent (parent p) = p\<lparr> parts := ps \<rparr>"
    using assms(1) by (simp add: parent_def butlast_append)
  have nm: "name (parent p) = d" using pp by (simp add: name_def)
  have nn: "name p = n" using assms(1) by (simp add: name_def)
  have c1: "d @ ''-INGESTED'' \<noteq> []" "d @ ''-INGESTED'' \<noteq> ''.''"
    "CHR ''/'' \<notin> set (d @ ''-INGESTED'')"
    using assms(2,3) by (auto simp: append_eq_Cons_conv)
  show ?thesis
    unfolding to_ingested_path_def Let_def nm nn ppp
    by (simp add: joinpath_component [OF c1] joinpath_component [OF assms(4,5,6)])
qed

text \<open>
  C9. For a run folder path whose components end with the parent directory \<open>d\<close> and the
  folder \<open>n\<close>, the ingested path keeps the root and the components above \<open>d\<close>, replaces
  \<open>d\<close> by \<open>d-INGESTED\<close> and keeps \<open>n\<close>: the grandparent joined with the parent's name
  and the suffix, joined with the folder's name. The functions of \<open>common.py\<close> and of
  \<open>illumina.py\<close> agree, and \<open>/data/RunsA/Run123\<close> is mapped to
  \<open>/data/RunsA-INGESTED/Run123\<close>.
\<close>

theorem to_ingested_path_sibling:
  assumes "parts (Path s) = ps @ [d, n]"
  shows "to_ingested_path (Path s)
           = \<lparr> root = root (Path s), parts = ps @ [d @ ''-INGESTED'', n] \<rparr>
       \<and> to_ingested_path (Path s)
           = joinpath (joinpath (parent (parent (Path s)))
                                (name (parent (Path s)) @ ''-INGESTED''))
                      (name (Path s))
       \<and> illumina_to_ingested_path s = to_ingested_path (Path s)
       \<and> path_str (to_ingested_path (Path ''/data/RunsA/Run123''))
           = ''/data/RunsA-INGESTED/Run123''"
proof -
  have d: "d \<in> set (parts (Path s))" and n: "n \<in> set (parts (Path s))"
    using assms by simp_all
  have "to_ingested_path (Path s) = (Path s)\<lparr> parts := ps @ [d @ ''-INGESTED'', n] \<rparr>"
    using to_ingested_path_components [OF assms] Path_part_valid [OF d] Path_part_valid [OF n]
    by simp
  moreover have "illumina_to_ingested_path s = to_ingested_path (Path s)"
    by (simp add: illumina_to_ingested_path_def to_ingested_path_def Let_def)
  moreover have "path_str (to_ingested_path (Path ''/data/RunsA/Run123''))
                   = ''/data/RunsA-INGESTED/Run123''"
    by code_simp
  ultimately show ?thesis by (simp add: to_ingested_path_def Let_def)
qed

theorem to_ingested_path_sibling_witness:
  "parts (Path ''/data/RunsA/Run123'') = [''data''] @ [''RunsA'', ''Run123'']
   \<and> to_ingested_path (Path ''/data/RunsA/Run123'')
       = \<lparr> root = ''/'', parts = [''data'', ''RunsA-INGESTED'', ''Run123''] \<rparr>"
proof -
  have h: "parts (Path ''/data/RunsA/Run123'') = [''data''] @ [''RunsA'', ''Run123'']"
    by code_simp
  have r: "root (Path ''/data/RunsA/Run123'') = ''/''"
    by code_simp
  from to_ingested_path_sibling [OF h] h r show ?thesis by simp
qed

section \<open>The completion detector\<close>

lemma scan_last_update_Some:
  "map prs vs = map Some ts \<Longrightarrow>
   scan_last_update prs vs (Some a) = Inr (Some (Max (insert a (set ts))))"
proof (induction vs arbitrary: a ts)
  case Nil
  then show ?case by simp
next
  case (Cons v vs)
  then obtain t ts' where ts: "ts = t # ts'" "prs v = Some t" "map prs vs = map Some ts'"
    by (cases ts) auto
  have "Max (insert (max a t) (set ts')) = Max (insert a (insert t (set ts')))"
    by (cases "set ts' = {}") (auto simp: max.assoc)
  with Cons.IH [OF ts(3)] ts show ?case
    by (auto simp: max_def)
qed

lemma scan_last_update_None:
  assumes "map prs vs = map Some ts" and "ts \<noteq> []"
  shows "scan_last_update prs vs None = Inr (Some (Max (set ts)))"
proof -
  from assms obtain v vs' t ts' where s: "vs = v # vs'" "ts = t # ts'" "prs v = Some t"
    "map prs vs' = map Some ts'"
    by (cases vs; cases ts) auto
  then show ?thesis using scan_last_update_Some [OF s(4), of t] by simp
qed

text \<open>
  C3. Let the stored \<open>last_update\<close> values parse to the times \<open>ts\<close> (at least one), and
  let the age be the clock reading minus the largest of them. The run goes on to finalize,
  that is, it logs that it will finalize and enters the manifest build of lines 137 ff.,
  if and only if \<open>is_folder_done\<close> holds for the folder and the age is strictly larger
  than the delay. When the predicate is false the run only logs that the folder is not
  marked as done and returns, whatever the age; when the predicate is true and the age
  is not larger than the delay it only logs that it does not move and returns.
\<close>

theorem completion_detector:
  assumes "map (parse w) (last_update_values dst) = map Some ts" and "ts \<noteq> []"
  shows "(take 1 (fst (post_job_run_folder_done w src_folder dst is_folder_done delay))
            = [Log INFO (WillFinalize (coll_path dst) (now_first w - Max (set ts)) delay)]
          \<longleftrightarrow> is_folder_done (path_str src_folder) \<and> now_first w - Max (set ts) > delay)
       \<and> (is_folder_done (path_str src_folder) \<and> now_first w - Max (set ts) > delay \<longrightarrow>
            (\<exists>rest. fst (post_job_run_folder_done w src_folder dst is_folder_done delay)
               = Log INFO (WillFinalize (coll_path dst) (now_first w - Max (set ts)) delay)
                 # fst (build_local_manifest w src_folder) @ rest))
       \<and> (\<not> is_folder_done (path_str src_folder) \<longrightarrow>
            post_job_run_folder_done w src_folder dst is_folder_done delay
              = ([Log INFO (NotMarkedDone (path_str src_folder))], Inr ()))
       \<and> (is_folder_done (path_str src_folder) \<and> \<not> now_first w - Max (set ts) > delay \<longrightarrow>
            post_job_run_folder_done w src_folder dst is_folder_done delay
              = ([Log INFO (NotMoving (coll_path dst) (now_first w - Max (set ts)) delay)],
                 Inr ()))"
  using scan_last_update_None [OF assms]
  by (auto simp: post_job_run_folder_done_def last_update_age_def Let_def
           split: prod.splits flow.splits)

text \<open>
  The witness: with the marker present and a delay of fifteen minutes, a \<open>last_update\<close>
  twenty minutes old goes on to finalize and one ten minutes old does not; without the
  marker the twenty minutes old one does not either.
\<close>

theorem completion_detector_witness:
  "map (parse env_module) (last_update_values (coll_run ''Run123'')) = map Some [0]
   \<and> take 1 (fst (post_job_run_folder_done env_module (Path ''/data/RunsA/Run123'')
                     (coll_run ''Run123'') (\<lambda>p. True) fifteen_minutes))
       = [Log INFO (WillFinalize ''/zone/ingest/Run123'' 1200000000 fifteen_minutes)]
   \<and> post_job_run_folder_done (env_module\<lparr> now_first := 600000000 \<rparr>)
         (Path ''/data/RunsA/Run123'') (coll_run ''Run123'') (\<lambda>p. True) fifteen_minutes
       = ([Log INFO (NotMoving ''/zone/ingest/Run123'' 600000000 fifteen_minutes)], Inr ())
   \<and> post_job_run_folder_done env_module
         (Path ''/data/RunsA/Run123'') (coll_run ''Run123'') (\<lambda>p. False) fifteen_minutes
       = ([Log INFO (NotMarkedDone ''/data/RunsA/Run123'')], Inr ())"
proof -
  have h: "map (parse env_module) (last_update_values (coll_run ''Run123'')) = map Some [0]"
    by (simp add: env_module_def coll_run_def)
  have h': "map (parse (env_module\<lparr> now_first := 600000000 \<rparr>))
              (last_update_values (coll_run ''Run123'')) = map Some [0]"
    by (simp add: env_module_def coll_run_def)
  have ne: "[0::int] \<noteq> []" by simp
  have p: "path_str (Path ''/data/RunsA/Run123'') = ''/data/RunsA/Run123''"
    by code_simp
  have c: "coll_path (coll_run ''Run123'') = ''/zone/ingest/Run123''"
    by (simp add: coll_run_def)
  have n: "now_first env_module = 1200000000" by (simp add: env_module_def)
  from completion_detector [OF h ne, of "Path ''/data/RunsA/Run123''" "\<lambda>p. True" fifteen_minutes]
    completion_detector [OF h' ne, of "Path ''/data/RunsA/Run123''" "\<lambda>p. True" fifteen_minutes]
    completion_detector [OF h ne, of "Path ''/data/RunsA/Run123''" "\<lambda>p. False" fifteen_minutes]
    h p c n
  show ?thesis by (simp add: fifteen_minutes_def)
qed



section \<open>The local manifest\<close>

text \<open>
  C5. The claim: the local manifest build lists the regular files of the run folder
  without the two manifest files. The command of line 143 excludes the path of
  \<open>MANIFEST_LOCAL\<close> only, where the query of lines 173 to 176 excludes both names. In
  a folder that holds \<open>_MANIFEST_IRODS.txt\<close> (written at line 167 of an earlier pass)
  the command lists that file.
\<close>

theorem find_lists_irods_manifest:
  "find_argv = Inr [''find'', ''.'', ''-type'', ''f'', ''-and'', ''-not'', ''-path'',
                    ''./_MANIFEST_LOCAL.txt'']
   \<and> find_output [''find'', ''.'', ''-type'', ''f'', ''-and'', ''-not'', ''-path'',
                   ''./_MANIFEST_LOCAL.txt'']
        [(''./a'', Regular), (''./sub'', Directory), (''./sub/b'', Regular),
         (''./_MANIFEST_LOCAL.txt'', Regular), (''./_MANIFEST_IRODS.txt'', Regular)]
       = Some [''./a'', ''./sub/b'', ''./_MANIFEST_IRODS.txt'']"
  by code_simp

section \<open>A pass over all run folders\<close>

lemma post_job_loop_continues:
  assumes "dst_collections f = Some coll"
    and "post_job_run_folder_done (world f) (joinpath src_root f) coll
           is_folder_done delay = (t, Inr u)"
  shows "post_job_loop world src_root dst_collections is_folder_done delay (f # rest)
           = (t @ fst (post_job_loop world src_root dst_collections is_folder_done delay rest),
              snd (post_job_loop world src_root dst_collections is_folder_done delay rest))"
  using assms by simp

lemma post_job_loop_stops:
  assumes "dst_collections f = Some coll"
    and "post_job_run_folder_done (world f) (joinpath src_root f) coll
           is_folder_done delay = (t, Inl e)"
  shows "post_job_loop world src_root dst_collections is_folder_done delay (f # rest)
           = (t, Inl e)"
  using assms by simp

text \<open>
  C8. The claim: a failure while one folder is processed does not keep the other folders
  of the pass from being processed. The loop of \<open>post_job\<close> catches nothing, so an
  exception that leaves \<open>_post_job_run_folder_done\<close> ends the pass
  (\<open>post_job_loop_stops\<close>). Evaluated here on two folders that both carry the marker
  and are at rest. With the module as written, the first folder raises \<open>NameError\<close> at
  line 139 and nothing is done for the second. With the name \<open>chck_path\<close> bound and
  \<open>find\<close> ending with status one, the first folder raises \<open>TypeError\<close> at line 156
  and nothing is done for the second.
\<close>

theorem post_job_stops_at_first_exception:
  "post_job (\<lambda>n. env_module) ''/data/RunsA'' [coll_run ''Run1'', coll_run ''Run2'']
     [''Run2'', ''Run1''] (\<lambda>p. True) fifteen_minutes
     = ([Log INFO (WillFinalize ''/zone/ingest/Run1'' 1200000000 900000000), Did Cleanup],
        Inl (NameError ''chck_path''))
   \<and> post_job (\<lambda>n. env_module\<lparr> chck_path := Some ''manifest'', find_returncode := 1 \<rparr>)
       ''/data/RunsA'' [coll_run ''Run1'', coll_run ''Run2''] [''Run2'', ''Run1'']
       (\<lambda>p. True) fifteen_minutes
     = ([Log INFO (WillFinalize ''/zone/ingest/Run1'' 1200000000 900000000),
         Log INFO (ComputeChecksums ''manifest''),
         Did (OpenWrite ''/data/RunsA/Run1/_MANIFEST_LOCAL.txt''),
         Did (Popen [''find'', ''.'', ''-type'', ''f'', ''-and'', ''-not'', ''-path'',
                     ''./_MANIFEST_LOCAL.txt''] ''/data/RunsA/Run1''),
         Did (Run [''hashdeep'', ''-c'', ''md5'', ''-f'', ''/dev/stdin'', ''-j'', ''8'']),
         Did Cleanup],
        Inl TypeError)"
  by code_simp

section \<open>What a finalizing run reaches\<close>



text \<open>
  The command line of the second query (lines 180 to 188) cannot be built: after \<open>%s\<close>
  has taken the only argument, the format holds a second \<open>%\<close>.
\<close>

theorem second_query_format_raises: "iquest_cmd_sub dst = Inl TypeError"
  by (simp add: iquest_cmd_sub_def)

text \<open>
  With the module as written (no global \<open>chck_path\<close>), a run that goes on to finalize logs
  that it will finalize and raises \<open>NameError\<close> at line 139.
\<close>

theorem run_raises_at_line_139:
  assumes "chck_path w = None"
    and "scan_last_update (parse w) (last_update_values dst) None = Inr lu"
    and "is_folder_done (path_str src_folder)"
    and "last_update_age w lu > delay"
  shows "post_job_run_folder_done w src_folder dst is_folder_done delay
           = ([Log INFO (WillFinalize (coll_path dst) (last_update_age w lu) delay)],
              Inl (NameError ''chck_path''))"
  using assms
  by (simp add: post_job_run_folder_done_def build_local_manifest_def Let_def)

theorem run_raises_at_line_139_witness:
  "chck_path env_module = None
   \<and> post_job_run_folder_done env_module (Path ''/data/RunsA/Run123'')
        (coll_run ''Run123'') (\<lambda>p. True) fifteen_minutes
       = ([Log INFO (WillFinalize ''/zone/ingest/Run123'' 1200000000 fifteen_minutes)],
          Inl (NameError ''chck_path''))"
proof -
  have h1: "chck_path env_module = None" by (simp add: env_module_def)
  have h2: "scan_last_update (parse env_module) (last_update_values (coll_run ''Run123''))
              None = Inr (Some 0)"
    by (simp add: env_module_def coll_run_def)
  have h3: "(\<lambda>p. True) (path_str (Path ''/data/RunsA/Run123''))" by simp
  have h4: "last_update_age env_module (Some 0) > fifteen_minutes"
    by (simp add: last_update_age_def env_module_def fifteen_minutes_def)
  have a: "last_update_age env_module (Some 0) = 1200000000"
    by (simp add: last_update_age_def env_module_def)
  have c: "coll_path (coll_run ''Run123'') = ''/zone/ingest/Run123''"
    by (simp add: coll_run_def)
  from run_raises_at_line_139 [OF h1 h2 h3 h4] h1 a c show ?thesis by simp
qed


section \<open>When the comparison returns\<close>

lemma load_local_empty_result:
  "load_local ls info = Inr [] \<Longrightarrow> info = [] \<and> list_all is_comment ls"
proof (induction ls arbitrary: info)
  case Nil
  then show ?case by simp
next
  case (Cons l ls)
  show ?case
  proof (cases "is_comment l")
    case True
    with Cons show ?thesis by simp
  next
    case False
    with Cons.prems obtain i where "load_local ls i = Inr []" "i \<noteq> []"
      by (auto split: list.splits)
    with Cons.IH show ?thesis by blast
  qed
qed

lemma load_irods_empty_result:
  "load_irods dest ls info = Inr [] \<Longrightarrow> info = [] \<and> list_all is_comment ls"
proof (induction ls arbitrary: info)
  case Nil
  then show ?case by simp
next
  case (Cons l ls)
  show ?case
  proof (cases "is_comment l")
    case True
    with Cons show ?thesis by simp
  next
    case False
    with Cons.prems obtain i where "load_irods dest ls i = Inr []" "i \<noteq> []"
      by (auto split: list.splits)
    with Cons.IH show ?thesis by blast
  qed
qed

lemma load_local_comments: "list_all is_comment ls \<Longrightarrow> load_local ls info = Inr info"
  by (induction ls) auto

lemma load_irods_comments:
  "list_all is_comment ls \<Longrightarrow> load_irods dest ls info = Inr info"
  by (induction ls) auto

text \<open>
  With line 71 as it is, the comparison returns exactly when both manifest files exist
  and hold nothing but comment lines: any entry on either side is reported as an extra
  local item.
\<close>

theorem compare_manifests_returns_iff_no_entries:
  "compare_manifests fs path_local path_irods dest_coll = ([], Inr ())
   \<longleftrightarrow> (\<exists>lines_local lines_irods.
          fs path_local = Some lines_local \<and> fs path_irods = Some lines_irods
          \<and> list_all is_comment lines_local \<and> list_all is_comment lines_irods)"
proof
  assume r: "compare_manifests fs path_local path_irods dest_coll = ([], Inr ())"
  then obtain ll li i0 i1 where f: "fs path_local = Some ll" "fs path_irods = Some li"
    and l: "load_local ll [] = Inr i0" "load_irods dest_coll li i0 = Inr i1"
    by (auto simp: compare_manifests_def split: option.splits sum.splits)
  from r f l have "i1 = []"
    by (auto simp: compare_manifests_def Let_def split: if_splits)
  with l(2) have "i0 = []" "list_all is_comment li"
    using load_irods_empty_result by blast+
  with l(1) have "list_all is_comment ll"
    using load_local_empty_result by blast
  with f \<open>list_all is_comment li\<close>
  show "\<exists>lines_local lines_irods.
          fs path_local = Some lines_local \<and> fs path_irods = Some lines_irods
          \<and> list_all is_comment lines_local \<and> list_all is_comment lines_irods"
    by blast
next
  assume "\<exists>lines_local lines_irods.
          fs path_local = Some lines_local \<and> fs path_irods = Some lines_irods
          \<and> list_all is_comment lines_local \<and> list_all is_comment lines_irods"
  then show "compare_manifests fs path_local path_irods dest_coll = ([], Inr ())"
    by (auto simp: compare_manifests_def Let_def load_local_comments load_irods_comments)
qed

end
